theory Spec2Isabelle
  imports
    Complex_Main
    "HOL-Library.Product_Lexorder"
    "HOL-Library.Char_ord"
    "HOL-Library.List_Lexorder"
    "HOL-Library.Option_ord"
    "HOL-Library.Sublist"
    "HOL-Library.Multiset"
begin

section \<open>Data model\<close>

text \<open>
  The dashboard works on one pandas/geopandas frame. After \<open>load_data\<close> every row has an
  integer year \<open>ano\<close>, an area \<open>area_km2\<close>, a secondary grouping key \<open>municipio\<close> and
  a geometry; the state column \<open>uf\<close> exists only if the input had a column reconciled to
  it, and \<open>None\<close> in a row stands for a row without a state value (every row, when the
  frame has no single state column).

  Areas are Python floats in the source. They are modelled as real numbers: sums,
  quotients and comparisons are exact, and NaN (the minimum of an empty column, a failed
  coercion) is \<open>None\<close>. The type \<open>'c\<close> is the type of the raw values of the input frame
  (text, numbers, missing values), \<open>'g\<close> the type of geometries.
\<close>

record ('c, 'g) feature =
  ano :: int
  area_km2 :: real
  uf :: "'c option"
  municipio :: 'c
  geometry :: 'g

record ('c, 'g) gdf =
  gcolumns :: "string list"
  grows :: "('c, 'g) feature list"

section \<open>The visual encoder: \<open>create_choropleth_map\<close>\<close>

text \<open>\<open>Series.min()\<close>, \<open>Series.max()\<close> and \<open>Series.mean()\<close>: NaN on an empty column.\<close>

fun series_min :: "real list \<Rightarrow> real option" where
  "series_min [] = None"
| "series_min (x # xs) = Some (fold min xs x)"

fun series_max :: "real list \<Rightarrow> real option" where
  "series_max [] = None"
| "series_max (x # xs) = Some (fold max xs x)"

fun series_mean :: "real list \<Rightarrow> real option" where
  "series_mean [] = None"
| "series_mean (x # xs) = Some (sum_list (x # xs) / real (length (x # xs)))"

text \<open>The comparison \<open>a > b\<close> of two floats: false as soon as one of them is NaN.\<close>

fun float_gt :: "real option \<Rightarrow> real option \<Rightarrow> bool" where
  "float_gt (Some a) (Some b) = (a > b)"
| "float_gt _ _ = False"

text \<open>
  \<open>.astype(int)\<close> on a float column and Python's \<open>int(x)\<close> on a float both truncate
  towards zero.
\<close>

definition astype_int :: "real \<Rightarrow> int" where
  "astype_int x = (if 0 \<le> x then \<lfloor>x\<rfloor> else \<lceil>x\<rceil>)"

text \<open>
  \<open>DataFrame.nlargest(n, col)\<close> with the default \<open>keep='first'\<close>: the first \<open>n\<close> rows
  in descending order of the column, rows with equal values in their original order
  (pandas sorts the candidates with a stable merge sort).
\<close>

definition nlargest :: "nat \<Rightarrow> ('a \<Rightarrow> real) \<Rightarrow> 'a list \<Rightarrow> 'a list" where
  "nlargest n col df = take n (sort_key (\<lambda>r. - col r) df)"

text \<open>Lines 104-108: the sample that is drawn, and the \<open>st.warning\<close> that goes with it.\<close>

definition gdf_sample :: "('c, 'g) feature list \<Rightarrow> ('c, 'g) feature list" where
  "gdf_sample gdf_filtered =
     (if length gdf_filtered > 10000 then nlargest 10000 area_km2 gdf_filtered
      else gdf_filtered)"

definition sample_warning :: "('c, 'g) feature list \<Rightarrow> nat option" where
  "sample_warning gdf_filtered =
     (if length gdf_filtered > 10000 then Some (length gdf_filtered) else None)"

text \<open>Lines 113-124: the two columns \<open>color_intensity\<close> and \<open>elevation\<close>.\<close>

definition color_intensity_col :: "real list \<Rightarrow> int list" where
  "color_intensity_col areas =
     (let area_min = series_min areas; area_max = series_max areas in
      if float_gt area_max area_min
      then map (\<lambda>a. astype_int ((a - the area_min) / (the area_max - the area_min) * 255)) areas
      else map (\<lambda>a. 128) areas)"

definition elevation_col :: "real list \<Rightarrow> int list" where
  "elevation_col areas =
     (let area_min = series_min areas; area_max = series_max areas in
      if float_gt area_max area_min
      then map (\<lambda>a. astype_int ((a - the area_min) / (the area_max - the area_min) * 50000) + 5000) areas
      else map (\<lambda>a. 10000) areas)"

text \<open>Lines 126-129: the colour of one polygon, from its intensity.\<close>

definition color_of :: "int \<Rightarrow> int list" where
  "color_of x = [255, astype_int (255 - real_of_int x * 0.5), 0, 200]"

record ('c, 'g) encoded =
  row :: "('c, 'g) feature"
  color_intensity :: int
  elevation :: int
  color :: "int list"

record ('c, 'g) deck =
  warning :: "nat option"
  layer_data :: "('c, 'g) encoded list"
  latitude :: "real option"
  longitude :: "real option"

definition encode_rows :: "('c, 'g) feature list \<Rightarrow> ('c, 'g) encoded list" where
  "encode_rows sample =
     map (\<lambda>(f, i, e). \<lparr>row = f, color_intensity = i, elevation = e, color = color_of i\<rparr>)
       (zip sample (zip (color_intensity_col (map area_km2 sample))
                        (elevation_col (map area_km2 sample))))"

text \<open>
  The whole function. \<open>centroid\<close> gives the centroid \<open>(x, y)\<close> of a geometry (computed by
  geopandas in the source). The returned deck keeps what the layer and the view state
  are built from: the encoded rows and the anchor. Its field \<open>warning\<close> records the one
  message the function can emit on the way, the \<open>st.warning\<close> with the size of the
  subset, and is \<open>None\<close> when nothing was emitted.
\<close>

definition create_choropleth_map ::
  "('g \<Rightarrow> real \<times> real) \<Rightarrow> ('c, 'g) feature list \<Rightarrow> ('c, 'g) deck" where
  "create_choropleth_map centroid gdf_filtered =
     (let sample = gdf_sample gdf_filtered in
      \<lparr>warning = sample_warning gdf_filtered,
       layer_data = encode_rows sample,
       latitude = series_mean (map (\<lambda>f. snd (centroid (geometry f))) sample),
       longitude = series_mean (map (\<lambda>f. fst (centroid (geometry f))) sample)\<rparr>)"

section \<open>The loader: \<open>load_data\<close>\<close>

text \<open>
  The frame that \<open>gpd.read_parquet\<close> or \<open>gpd.read_file\<close> returns: its column labels,
  its coordinate reference system if it declares one, and its records. A record gives
  the value under each label and carries a geometry.
\<close>

record ('c, 'g) raw_record =
  cells :: "string \<Rightarrow> 'c"
  geom :: 'g

record ('c, 'g) raw_frame =
  columns :: "string list"
  crs :: "string option"
  records :: "('c, 'g) raw_record list"

text \<open>
  The two ways the loader gives up, both ending in \<open>st.error\<close> and \<open>return None\<close>: a
  required column is not there (the message names the source column), or an exception
  was caught by the handler around the whole body.
\<close>

datatype load_error =
  Coluna_Nao_Encontrada string
  | Erro_Ao_Carregar

definition column_mapping :: "(string \<times> string) list" where
  "column_mapping =
     [(''year'', ''ano''),
      (''area_km'', ''area_km2''),
      (''state'', ''uf''),
      (''class_name'', ''classe''),
      (''main_class'', ''classe_principal''),
      (''image_date'', ''data_imagem''),
      (''satellite'', ''satelite''),
      (''sensor'', ''sensor''),
      (''path_row'', ''path_row''),
      (''uuid'', ''uuid''),
      (''uid'', ''uid'')]"

definition existing_mappings :: "string list \<Rightarrow> (string \<times> string) list" where
  "existing_mappings cols = filter (\<lambda>(k, v). k \<in> set cols) column_mapping"

text \<open>\<open>gdf.rename(columns=m)\<close> relabels the columns; the values stay where they are.\<close>

definition rename :: "(string \<times> string) list \<Rightarrow> string \<Rightarrow> string" where
  "rename m c = (case map_of m c of Some v \<Rightarrow> v | None \<Rightarrow> c)"

definition renamed_columns :: "string list \<Rightarrow> string list" where
  "renamed_columns cols = map (rename (existing_mappings cols)) cols"

text \<open>
  The input labels that carry the label \<open>c\<close> after the renaming. \<open>gdf[c]\<close> is a single
  column only if there is exactly one; with several (say an input that has both \<open>year\<close>
  and \<open>ano\<close>) it is a frame, on which \<open>pd.to_numeric\<close> and the assignment to a single
  column raise.
\<close>

definition sources :: "string list \<Rightarrow> string \<Rightarrow> string list" where
  "sources cols c = filter (\<lambda>l. rename (existing_mappings cols) l = c) cols"

text \<open>
  \<open>to_numeric\<close> stands for \<open>pd.to_numeric(_, errors='coerce')\<close> on one value (\<open>None\<close>: the
  value is not a number and becomes NaN) and \<open>to_crs\<close> for the reprojection of one
  geometry to EPSG:4326; both belong to the libraries.
\<close>

definition load_data ::
  "('c \<Rightarrow> real option) \<Rightarrow> ('g \<Rightarrow> 'g) \<Rightarrow> ('c, 'g) raw_frame \<Rightarrow> load_error + ('c, 'g) gdf" where
  "load_data to_numeric to_crs raw =
     (let cols = renamed_columns (columns raw) in
      if ''ano'' \<notin> set cols then Inl (Coluna_Nao_Encontrada ''year'')
      else case sources (columns raw) ''ano'' of
        [year_src] \<Rightarrow>
          (let with_ano = filter (\<lambda>r. to_numeric (cells r year_src) \<noteq> None) (records raw) in
           if ''area_km2'' \<notin> set cols then Inl (Coluna_Nao_Encontrada ''area_km'')
           else case sources (columns raw) ''area_km2'' of
             [area_src] \<Rightarrow>
               (let kept = filter (\<lambda>r. case to_numeric (cells r area_src) of
                                          None \<Rightarrow> False | Some a \<Rightarrow> a > 0) with_ano;
                    municipio_src =
                      (if ''path_row'' \<in> set cols then sources (columns raw) ''path_row''
                       else sources (columns raw) ''uf'')
                in case municipio_src of
                  [m_src] \<Rightarrow>
                    Inr \<lparr>gcolumns = (if ''municipio'' \<in> set cols then cols else cols @ [''municipio'']),
                         grows = map (\<lambda>r.
                           \<lparr>ano = astype_int (the (to_numeric (cells r year_src))),
                            area_km2 = the (to_numeric (cells r area_src)),
                            uf = (case sources (columns raw) ''uf'' of
                                    [uf_src] \<Rightarrow> Some (cells r uf_src) | _ \<Rightarrow> None),
                            municipio = cells r m_src,
                            geometry = (if crs raw \<noteq> None \<and> crs raw \<noteq> Some ''EPSG:4326''
                                        then to_crs (geom r) else geom r)\<rparr>) kept\<rparr>
                | _ \<Rightarrow> Inl Erro_Ao_Carregar)
           | _ \<Rightarrow> Inl Erro_Ao_Carregar)
      | _ \<Rightarrow> Inl Erro_Ao_Carregar)"

section \<open>Aggregation and the page: \<open>main\<close>\<close>

text \<open>
  \<open>df.groupby(key)[col].sum().reset_index()\<close>: one row per key that occurs, the keys in
  ascending order (pandas sorts group keys by default), each with the sum of the column
  over the rows of its group.
\<close>

definition groupby_sum :: "('r \<Rightarrow> 'k::linorder) \<Rightarrow> ('r \<Rightarrow> real) \<Rightarrow> 'r list \<Rightarrow> ('k \<times> real) list" where
  "groupby_sum key col df =
     map (\<lambda>k. (k, sum_list (map col (filter (\<lambda>r. key r = k) df)))) (sort (remdups (map key df)))"


text \<open>
  Lines 480-485: grouping by year and state. pandas leaves out the rows whose key is
  missing; the groups come out ordered by \<open>(ano, uf)\<close>, and
  \<open>.sort_values(['ano', 'area_km2'], ascending=[True, False])\<close> is a stable sort on the
  key (year, minus area).
\<close>

definition evolucao_por_estado :: "('c::linorder, 'g) feature list \<Rightarrow> (int \<times> 'c \<times> real) list" where
  "evolucao_por_estado df =
     sort_key (\<lambda>(y, u, a). (y, - a))
       (map (\<lambda>((y, u), a). (y, u, a))
          (groupby_sum (\<lambda>f. (ano f, the (uf f))) area_km2 (filter (\<lambda>f. uf f \<noteq> None) df)))"


text \<open>\<open>df[df['uf'].isin(estados)]\<close>\<close>

definition isin_uf :: "'c list \<Rightarrow> ('c, 'g) feature list \<Rightarrow> ('c, 'g) feature list" where
  "isin_uf estados df = filter (\<lambda>f. case uf f of None \<Rightarrow> False | Some u \<Rightarrow> u \<in> set estados) df"

text \<open>
  Lines 207-253: the two sidebar widgets and the filters. \<open>slider\<close> is the year the
  slider returns and \<open>multiselect\<close> the list of states the multiselect returns; a
  selection is applied when it is truthy in Python (a non-zero year, a non-empty list) and
  its column exists.
\<close>

definition ano_selecionado :: "('c, 'g) gdf \<Rightarrow> int \<Rightarrow> int option" where
  "ano_selecionado df slider = (if ''ano'' \<in> set (gcolumns df) then Some slider else None)"

definition estados_selecionados :: "('c, 'g) gdf \<Rightarrow> 'c list \<Rightarrow> 'c list option" where
  "estados_selecionados df multiselect =
     (if ''uf'' \<in> set (gcolumns df) then Some multiselect else None)"

fun truthy_int :: "int option \<Rightarrow> bool" where
  "truthy_int None = False"
| "truthy_int (Some n) = (n \<noteq> 0)"

fun truthy_list :: "'a list option \<Rightarrow> bool" where
  "truthy_list None = False"
| "truthy_list (Some xs) = (xs \<noteq> [])"

definition gdf_filtered :: "('c, 'g) gdf \<Rightarrow> int \<Rightarrow> 'c list \<Rightarrow> ('c, 'g) feature list" where
  "gdf_filtered df slider multiselect =
     (let by_year =
            (if truthy_int (ano_selecionado df slider) \<and> ''ano'' \<in> set (gcolumns df)
             then filter (\<lambda>f. ano f = the (ano_selecionado df slider)) (grows df)
             else grows df)
      in if truthy_list (estados_selecionados df multiselect) \<and> ''uf'' \<in> set (gcolumns df)
         then isin_uf (the (estados_selecionados df multiselect)) by_year
         else by_year)"





section \<open>Example data\<close>

definition example_feature :: "real \<Rightarrow> (string, unit) feature" where
  "example_feature a =
     \<lparr>ano = 2020, area_km2 = a, uf = Some ''PA'', municipio = ''226/068'', geometry = ()\<rparr>"

definition example_centroid :: "unit \<Rightarrow> real \<times> real" where
  "example_centroid g = (- 60, - 5)"







section \<open>Facts about the encoder\<close>

lemma series_min_Min: "xs \<noteq> [] \<Longrightarrow> series_min xs = Some (Min (set xs))"
  by (cases xs) (simp_all add: Min.set_eq_fold [symmetric])

lemma series_max_Max: "xs \<noteq> [] \<Longrightarrow> series_max xs = Some (Max (set xs))"
  by (cases xs) (simp_all add: Max.set_eq_fold [symmetric])

lemma length_color_intensity_col [simp]: "length (color_intensity_col as) = length as"
  by (simp add: color_intensity_col_def Let_def)

lemma length_elevation_col [simp]: "length (elevation_col as) = length as"
  by (simp add: elevation_col_def Let_def)

lemma length_encode_rows [simp]: "length (encode_rows s) = length s"
  by (simp add: encode_rows_def)

lemma zip3_same:
  "zip xs (zip (map f (map h xs)) (map g (map h xs))) = map (\<lambda>x. (x, f (h x), g (h x))) xs"
  by (induction xs) simp_all

lemma encode_rows_map:
  "encode_rows s =
     (if float_gt (series_max (map area_km2 s)) (series_min (map area_km2 s))
      then map (\<lambda>f. \<lparr>row = f,
              color_intensity = astype_int ((area_km2 f - the (series_min (map area_km2 s)))
                 / (the (series_max (map area_km2 s)) - the (series_min (map area_km2 s))) * 255),
              elevation = astype_int ((area_km2 f - the (series_min (map area_km2 s)))
                 / (the (series_max (map area_km2 s)) - the (series_min (map area_km2 s))) * 50000) + 5000,
              color = color_of (astype_int ((area_km2 f - the (series_min (map area_km2 s)))
                 / (the (series_max (map area_km2 s)) - the (series_min (map area_km2 s))) * 255))\<rparr>) s
      else map (\<lambda>f. \<lparr>row = f, color_intensity = 128, elevation = 10000, color = color_of 128\<rparr>) s)"
proof (cases "float_gt (series_max (map area_km2 s)) (series_min (map area_km2 s))")
  case True
  then show ?thesis
    unfolding encode_rows_def color_intensity_col_def elevation_col_def Let_def
    by (simp only: if_True zip3_same) simp
next
  case False
  then show ?thesis
    unfolding encode_rows_def color_intensity_col_def elevation_col_def Let_def
    by (simp only: if_False zip3_same) simp
qed

lemma unit_fraction:
  fixes a lo hi :: real
  assumes "lo \<le> a" "a \<le> hi" "lo < hi"
  shows "0 \<le> (a - lo) / (hi - lo)" "(a - lo) / (hi - lo) \<le> 1"
  using assms by simp_all

lemma astype_int_scaled:
  fixes t :: real
  assumes "0 \<le> t" "t \<le> 1" "0 \<le> k"
  shows "astype_int (t * of_int k) = \<lfloor>t * of_int k\<rfloor>" "0 \<le> \<lfloor>t * of_int k\<rfloor>" "\<lfloor>t * of_int k\<rfloor> \<le> k"
proof -
  have nn: "0 \<le> t * of_int k" using assms by simp
  then show "astype_int (t * of_int k) = \<lfloor>t * of_int k\<rfloor>" by (simp add: astype_int_def)
  show "0 \<le> \<lfloor>t * of_int k\<rfloor>" using nn by simp
  have "t * of_int k \<le> 1 * of_int k" using assms by (intro mult_right_mono) simp_all
  then have "\<lfloor>t * of_int k\<rfloor> \<le> \<lfloor>(of_int k :: real)\<rfloor>" by (intro floor_mono) simp
  then show "\<lfloor>t * of_int k\<rfloor> \<le> k" by simp
qed

lemma nlargest_length: "length (nlargest n col df) = min (length df) n"
  by (simp add: nlargest_def)

lemma set_nlargest: "set (nlargest n col df) \<subseteq> set df"
  using set_take_subset [of n "sort_key (\<lambda>r. - col r) df"] by (simp add: nlargest_def)

lemma length_gdf_sample: "length (gdf_sample fs) = min (length fs) 10000"
  by (simp add: gdf_sample_def nlargest_length)

lemma gdf_sample_nonempty: "fs \<noteq> [] \<Longrightarrow> gdf_sample fs \<noteq> []"
  using length_gdf_sample [of fs] by (cases fs) auto

lemma set_gdf_sample: "set (gdf_sample fs) \<subseteq> set fs"
  using set_nlargest [of 10000 area_km2 fs] by (simp add: gdf_sample_def)

lemma layer_data_encode:
  "layer_data (create_choropleth_map centroid fs) = encode_rows (gdf_sample fs)"
  by (simp add: create_choropleth_map_def Let_def)

lemma encoded_scaled:
  assumes ne: "s \<noteq> []"
    and gt: "Min (area_km2 ` set s) < Max (area_km2 ` set s)"
    and e: "e \<in> set (encode_rows s)"
  shows "row e \<in> set s"
    and "color_intensity e = astype_int ((area_km2 (row e) - Min (area_km2 ` set s))
            / (Max (area_km2 ` set s) - Min (area_km2 ` set s)) * 255)"
    and "elevation e = astype_int ((area_km2 (row e) - Min (area_km2 ` set s))
            / (Max (area_km2 ` set s) - Min (area_km2 ` set s)) * 50000) + 5000"
    and "color e = color_of (color_intensity e)"
proof -
  have "float_gt (series_max (map area_km2 s)) (series_min (map area_km2 s))"
    using ne gt by (simp add: series_min_Min series_max_Max)
  then have "e \<in> set (map (\<lambda>f. \<lparr>row = f,
              color_intensity = astype_int ((area_km2 f - the (series_min (map area_km2 s)))
                 / (the (series_max (map area_km2 s)) - the (series_min (map area_km2 s))) * 255),
              elevation = astype_int ((area_km2 f - the (series_min (map area_km2 s)))
                 / (the (series_max (map area_km2 s)) - the (series_min (map area_km2 s))) * 50000) + 5000,
              color = color_of (astype_int ((area_km2 f - the (series_min (map area_km2 s)))
                 / (the (series_max (map area_km2 s)) - the (series_min (map area_km2 s))) * 255))\<rparr>) s)"
    using e by (simp only: encode_rows_map if_True)
  then obtain f where f: "f \<in> set s" and ef: "e = \<lparr>row = f,
              color_intensity = astype_int ((area_km2 f - the (series_min (map area_km2 s)))
                 / (the (series_max (map area_km2 s)) - the (series_min (map area_km2 s))) * 255),
              elevation = astype_int ((area_km2 f - the (series_min (map area_km2 s)))
                 / (the (series_max (map area_km2 s)) - the (series_min (map area_km2 s))) * 50000) + 5000,
              color = color_of (astype_int ((area_km2 f - the (series_min (map area_km2 s)))
                 / (the (series_max (map area_km2 s)) - the (series_min (map area_km2 s))) * 255))\<rparr>"
    by auto
  have mm: "the (series_min (map area_km2 s)) = Min (area_km2 ` set s)"
       "the (series_max (map area_km2 s)) = Max (area_km2 ` set s)"
    using ne by (simp_all add: series_min_Min series_max_Max)
  show "row e \<in> set s" using f ef by simp
  show "color_intensity e = astype_int ((area_km2 (row e) - Min (area_km2 ` set s))
            / (Max (area_km2 ` set s) - Min (area_km2 ` set s)) * 255)"
    by (simp only: ef mm encoded.simps)
  show "elevation e = astype_int ((area_km2 (row e) - Min (area_km2 ` set s))
            / (Max (area_km2 ` set s) - Min (area_km2 ` set s)) * 50000) + 5000"
    by (simp only: ef mm encoded.simps)
  show "color e = color_of (color_intensity e)"
    by (simp only: ef encoded.simps)
qed

lemma encoded_uniform:
  assumes "\<not> Min (area_km2 ` set s) < Max (area_km2 ` set s)" and e: "e \<in> set (encode_rows s)"
  shows "row e \<in> set s" "color_intensity e = 128" "elevation e = 10000"
    "color e = color_of (color_intensity e)"
proof -
  have "\<not> float_gt (series_max (map area_km2 s)) (series_min (map area_km2 s))"
  proof (cases "s = []")
    case True then show ?thesis by simp
  next
    case False then show ?thesis using assms(1) by (simp add: series_min_Min series_max_Max)
  qed
  then have "e \<in> set (map (\<lambda>f. \<lparr>row = f, color_intensity = 128, elevation = 10000,
      color = color_of 128\<rparr>) s)"
    using e by (simp only: encode_rows_map if_False)
  then obtain f where "f \<in> set s"
    "e = \<lparr>row = f, color_intensity = 128, elevation = 10000, color = color_of 128\<rparr>" by auto
  then show "row e \<in> set s" "color_intensity e = 128" "elevation e = 10000"
    "color e = color_of (color_intensity e)" by simp_all
qed

lemma area_between:
  assumes "f \<in> set s"
  shows "Min (area_km2 ` set s) \<le> area_km2 f" "area_km2 f \<le> Max (area_km2 ` set s)"
  using assms by simp_all


lemma encoded_intensity_range:
  assumes e: "e \<in> set (encode_rows s)"
  shows "0 \<le> color_intensity e \<and> color_intensity e \<le> 255 \<and> color e = color_of (color_intensity e)"
proof (cases "Min (area_km2 ` set s) < Max (area_km2 ` set s)")
  case True
  have ne: "s \<noteq> []" using e by (auto simp: encode_rows_def)
  let ?t = "(area_km2 (row e) - Min (area_km2 ` set s)) / (Max (area_km2 ` set s) - Min (area_km2 ` set s))"
  have r: "row e \<in> set s" by (rule encoded_scaled(1) [OF ne True e])
  have t: "0 \<le> ?t" "?t \<le> 1"
    using unit_fraction [OF area_between [OF r] True] by simp_all
  have "color_intensity e = \<lfloor>?t * of_int 255\<rfloor>"
    using encoded_scaled(2) [OF ne True e] astype_int_scaled(1) [OF t, of 255] by simp
  then show ?thesis
    using astype_int_scaled(2,3) [OF t, of 255] encoded_scaled(4) [OF ne True e] by simp
next
  case False
  then show ?thesis using encoded_uniform(2,4) [OF False e] by simp
qed

lemma map_constant:
  "\<forall>x \<in> set xs. f x = c \<Longrightarrow> map f xs = replicate (length xs) c"
  by (induction xs) simp_all

subsection \<open>Normalised intensity and elevation\<close>




subsection \<open>Uniform areas\<close>

text \<open>
  Claim C8. In a non-empty subset whose features all have the same area, every encoded
  feature has intensity 128 and elevation 10000.
\<close>

theorem uniform_area_midpoint:
  "fs \<noteq> [] \<Longrightarrow> \<forall>f \<in> set fs. area_km2 f = a \<Longrightarrow>
   e \<in> set (layer_data (create_choropleth_map centroid fs)) \<Longrightarrow>
   color_intensity e = 128 \<and> elevation e = 10000"
proof -
  assume ne: "fs \<noteq> []" and all: "\<forall>f \<in> set fs. area_km2 f = a"
    and e: "e \<in> set (layer_data (create_choropleth_map centroid fs))"
  let ?s = "gdf_sample fs"
  have "?s \<noteq> []" using ne by (rule gdf_sample_nonempty)
  then obtain f where "f \<in> set ?s" by (cases ?s) auto
  moreover have "\<forall>f \<in> set ?s. area_km2 f = a" using all set_gdf_sample [of fs] by auto
  ultimately have "area_km2 ` set ?s = {a}" by auto
  then have "\<not> Min (area_km2 ` set ?s) < Max (area_km2 ` set ?s)" by simp
  moreover have "e \<in> set (encode_rows ?s)" using e by (simp add: layer_data_encode)
  ultimately show ?thesis using encoded_uniform(2,3) by blast
qed

text \<open>Three features of area 7.\<close>

theorem uniform_area_midpoint_witness:
  "map (\<lambda>e. (color_intensity e, elevation e))
     (layer_data (create_choropleth_map example_centroid
        [example_feature 7, example_feature 7, example_feature 7]))
   = [(128, 10000), (128, 10000), (128, 10000)]"
proof -
  let ?g = "[example_feature 7, example_feature 7, example_feature 7]"
  let ?d = "layer_data (create_choropleth_map example_centroid ?g)"
  have "\<forall>e \<in> set ?d. color_intensity e = 128 \<and> elevation e = 10000"
    using uniform_area_midpoint [of ?g 7 _ example_centroid] by (simp add: example_feature_def)
  moreover have "length ?d = 3" by (simp add: layer_data_encode gdf_sample_def)
  ultimately have "map (\<lambda>e. (color_intensity e, elevation e)) ?d = replicate 3 (128, 10000)"
    using map_constant [of ?d "\<lambda>e. (color_intensity e, elevation e)" "(128, 10000)"] by simp
  then show ?thesis by (simp add: numeral_3_eq_3)
qed

subsection \<open>Range of the elevation\<close>

text \<open>
  Claim C10. For a non-empty subset every elevation lies between 5000 and 55000. Where
  the greatest area \<open>amax\<close> of the sample exceeds the least area \<open>amin\<close>, a feature of
  area \<open>amin\<close> gets exactly 5000 and a feature of area \<open>amax\<close> exactly 55000; where the
  two are equal every feature gets 10000.
\<close>

theorem elevation_range:
  "fs \<noteq> [] \<Longrightarrow>
   amin = Min (area_km2 ` set (gdf_sample fs)) \<Longrightarrow>
   amax = Max (area_km2 ` set (gdf_sample fs)) \<Longrightarrow>
   e \<in> set (layer_data (create_choropleth_map centroid fs)) \<Longrightarrow>
   5000 \<le> elevation e \<and> elevation e \<le> 55000 \<and>
   (amax > amin \<and> area_km2 (row e) = amin \<longrightarrow> elevation e = 5000) \<and>
   (amax > amin \<and> area_km2 (row e) = amax \<longrightarrow> elevation e = 55000) \<and>
   (amax = amin \<longrightarrow> elevation e = 10000)"
proof -
  assume ne0: "fs \<noteq> []"
    and amin: "amin = Min (area_km2 ` set (gdf_sample fs))"
    and amax: "amax = Max (area_km2 ` set (gdf_sample fs))"
    and e0: "e \<in> set (layer_data (create_choropleth_map centroid fs))"
  let ?s = "gdf_sample fs"
  let ?t = "(area_km2 (row e) - amin) / (amax - amin)"
  have ne: "?s \<noteq> []" using ne0 by (rule gdf_sample_nonempty)
  have e: "e \<in> set (encode_rows ?s)" using e0 by (simp add: layer_data_encode)
  show ?thesis
  proof (cases "amin < amax")
    case True
    then have gt: "Min (area_km2 ` set ?s) < Max (area_km2 ` set ?s)" using amin amax by simp
    have r: "row e \<in> set ?s" by (rule encoded_scaled(1) [OF ne gt e])
    have t: "0 \<le> ?t" "?t \<le> 1"
      using unit_fraction [of amin "area_km2 (row e)" amax] area_between [OF r] amin amax True
      by simp_all
    have el: "elevation e = \<lfloor>?t * of_int 50000\<rfloor> + 5000"
      using encoded_scaled(3) [OF ne gt e] amin amax astype_int_scaled(1) [OF t, of 50000] by simp
    have "5000 \<le> elevation e" "elevation e \<le> 55000"
      using el astype_int_scaled(2,3) [OF t, of 50000] by simp_all
    moreover have "area_km2 (row e) = amin \<Longrightarrow> elevation e = 5000" using el by simp
    moreover have "area_km2 (row e) = amax \<Longrightarrow> elevation e = 55000" using el True by simp
    ultimately show ?thesis using True by auto
  next
    case False
    then have "\<not> Min (area_km2 ` set ?s) < Max (area_km2 ` set ?s)" using amin amax by simp
    then have "elevation e = 10000" using encoded_uniform(3) e by blast
    then show ?thesis using False by simp
  qed
qed

text \<open>
  The areas 1, 3 and 8 again: the elevations are 5000, 19285 and 55000. And two features
  of area 7: both at 10000.
\<close>

theorem elevation_range_witness:
  "elevation (layer_data (create_choropleth_map example_centroid
      [example_feature 1, example_feature 3, example_feature 8]) ! 0) = 5000 \<and>
   elevation (layer_data (create_choropleth_map example_centroid
      [example_feature 1, example_feature 3, example_feature 8]) ! 2) = 55000 \<and>
   elevation (layer_data (create_choropleth_map example_centroid
      [example_feature 7, example_feature 7]) ! 0) = 10000"
proof -
  let ?g = "[example_feature 1, example_feature 3, example_feature 8]"
  let ?d = "layer_data (create_choropleth_map example_centroid ?g)"
  let ?u = "[example_feature 7, example_feature 7]"
  let ?du = "layer_data (create_choropleth_map example_centroid ?u)"
  have len: "length ?d = 3" "length ?du = 2" by (simp_all add: layer_data_encode gdf_sample_def)
  have mem: "?d ! 0 \<in> set ?d" "?d ! 2 \<in> set ?d" "?du ! 0 \<in> set ?du"
    by (rule nth_mem, simp add: len)+
  have r: "area_km2 (row (?d ! 0)) = 1" "area_km2 (row (?d ! 2)) = 8"
    by (simp_all add: layer_data_encode gdf_sample_def encode_rows_map example_feature_def)
  have mn: "1 = Min (area_km2 ` set (gdf_sample ?g))"
    by (simp add: gdf_sample_def example_feature_def)
  have mx: "8 = Max (area_km2 ` set (gdf_sample ?g))"
    by (simp add: gdf_sample_def example_feature_def)
  have un: "7 = Min (area_km2 ` set (gdf_sample ?u))"
    by (simp add: gdf_sample_def example_feature_def)
  have ux: "7 = Max (area_km2 ` set (gdf_sample ?u))"
    by (simp add: gdf_sample_def example_feature_def)
  have ne: "?g \<noteq> []" "?u \<noteq> []" by simp_all
  have "elevation (?d ! 0) = 5000"
    using elevation_range [OF ne(1) mn mx mem(1)] r(1) by simp
  moreover have "elevation (?d ! 2) = 55000"
    using elevation_range [OF ne(1) mn mx mem(2)] r(2) by simp
  moreover have "elevation (?du ! 0) = 10000"
    using elevation_range [OF ne(2) un ux mem(3)] by simp
  ultimately show ?thesis by simp
qed

subsection \<open>Colour\<close>

text \<open>
  Claim C7, as the code has it. Every encoded feature has the colour
  \<open>[255, \<lfloor>255 - color_intensity * 0.5\<rfloor>, 0, 200]\<close>: red, blue and alpha are the constants
  255, 0 and 200, and the green channel is cut off at the decimal point by \<open>int\<close>, not
  rounded.
\<close>

theorem color_truncated:
  "e \<in> set (layer_data (create_choropleth_map centroid fs)) \<Longrightarrow>
   color e = [255, \<lfloor>255 - real_of_int (color_intensity e) * 0.5\<rfloor>, 0, 200] \<and>
   color e ! 0 = 255 \<and> color e ! 2 = 0 \<and> color e ! 3 = 200"
proof -
  assume "e \<in> set (layer_data (create_choropleth_map centroid fs))"
  then have e: "e \<in> set (encode_rows (gdf_sample fs))" by (simp add: layer_data_encode)
  have "color_intensity e \<le> 255" and c: "color e = color_of (color_intensity e)"
    using encoded_intensity_range [OF e] by simp_all
  then have "0 \<le> 255 - real_of_int (color_intensity e) * 0.5" by simp
  then have "astype_int (255 - real_of_int (color_intensity e) * 0.5)
      = \<lfloor>255 - real_of_int (color_intensity e) * 0.5\<rfloor>"
    by (simp only: astype_int_def if_True)
  then show ?thesis using c by (simp add: color_of_def)
qed

text \<open>The areas 1, 8 and 511 give the intensities 0, 3 and 255.\<close>

theorem color_truncated_witness:
  "map color (layer_data (create_choropleth_map example_centroid
      [example_feature 1, example_feature 8, example_feature 511]))
   = [[255, 255, 0, 200], [255, 253, 0, 200], [255, 127, 0, 200]]"
proof -
  let ?d = "layer_data (create_choropleth_map example_centroid
      [example_feature 1, example_feature 8, example_feature 511])"
  have ci: "map color_intensity ?d = [0, 3, 255]"
    by (simp add: layer_data_encode gdf_sample_def encode_rows_map example_feature_def astype_int_def)
  have len: "length ?d = 3" by (simp add: layer_data_encode gdf_sample_def)
  have "\<forall>e \<in> set ?d. color e = [255, \<lfloor>255 - real_of_int (color_intensity e) * 0.5\<rfloor>, 0, 200]"
    using color_truncated [of _ example_centroid
      "[example_feature 1, example_feature 8, example_feature 511]"] by blast
  then have "map color ?d = map (\<lambda>i. [255, \<lfloor>255 - real_of_int i * 0.5\<rfloor>, 0, 200]) (map color_intensity ?d)"
    by (simp add: o_def)
  then show ?thesis by (simp add: ci)
qed

text \<open>
  For the intensity 3 the green channel is \<open>int(253.5) = 253\<close>; rounding 253.5 gives 254,
  whether ties go up or to the even neighbour.
\<close>

theorem color_round_counterexample:
  "color (layer_data (create_choropleth_map example_centroid
      [example_feature 1, example_feature 8, example_feature 511]) ! 1)
   \<noteq> [255, round (255 - real_of_int (color_intensity (layer_data (create_choropleth_map example_centroid
      [example_feature 1, example_feature 8, example_feature 511]) ! 1)) * 0.5), 0, 200]"
  by (simp add: layer_data_encode gdf_sample_def encode_rows_map example_feature_def astype_int_def
      color_of_def round_def)

section \<open>Facts about the sample\<close>

lemma map_row_encode_rows: "map row (encode_rows s) = s"
  by (cases "float_gt (series_max (map area_km2 s)) (series_min (map area_km2 s))")
     (simp_all add: encode_rows_map o_def)

lemma descending_sort_key:
  "sorted_wrt (\<lambda>x y. col y \<le> col x) (sort_key (\<lambda>r. - col r) xs)" for col :: "'a \<Rightarrow> real"
  using sorted_sort_key [of "\<lambda>r. - col r" xs] by (simp add: sorted_map)

lemma map_col_descending:
  "map col (sort_key (\<lambda>r. - col r) xs) = rev (sort (map col xs))" for col :: "'a \<Rightarrow> real"
proof -
  have "sort (map col xs) = rev (map col (sort_key (\<lambda>r. - col r) xs))"
  proof (rule properties_for_sort)
    show "mset (rev (map col (sort_key (\<lambda>r. - col r) xs))) = mset (map col xs)" by simp
    show "sorted (rev (map col (sort_key (\<lambda>r. - col r) xs)))"
      using descending_sort_key [of col xs] by (simp add: sorted_wrt_rev sorted_wrt_map)
  qed
  then show ?thesis by simp
qed

lemma nlargest_threshold:
  fixes col :: "'a \<Rightarrow> real"
  assumes n: "0 < n" "n \<le> length xs"
  shows "\<forall>r \<in> set (nlargest n col xs). rev (sort (map col xs)) ! (n - 1) \<le> col r"
    and "\<forall>r \<in># mset xs - mset (nlargest n col xs). col r \<le> rev (sort (map col xs)) ! (n - 1)"
proof -
  let ?ys = "sort_key (\<lambda>r. - col r) xs"
  have len: "length ?ys = length xs" by simp
  have desc: "sorted_wrt (\<lambda>x y. col y \<le> col x) ?ys" by (rule descending_sort_key)
  have t: "rev (sort (map col xs)) ! (n - 1) = col (?ys ! (n - 1))"
    using n by (simp add: map_col_descending [symmetric])
  have mono: "col (?ys ! j) \<le> col (?ys ! i)" if "i \<le> j" "j < length xs" for i j
  proof (cases "i = j")
    case True then show ?thesis by simp
  next
    case False
    then have "i < j" using that by simp
    then show ?thesis using sorted_wrt_nth_less [OF desc, of i j] that len by simp
  qed
  show "\<forall>r \<in> set (nlargest n col xs). rev (sort (map col xs)) ! (n - 1) \<le> col r"
  proof
    fix r assume "r \<in> set (nlargest n col xs)"
    then obtain i where i: "i < n" "i < length xs" "r = ?ys ! i"
      by (auto simp: nlargest_def in_set_conv_nth)
    then show "rev (sort (map col xs)) ! (n - 1) \<le> col r"
      using mono [of i "n - 1"] n t by simp
  qed
  have "mset xs = mset (take n ?ys) + mset (drop n ?ys)"
    by (simp flip: mset_append)
  then have rest: "mset xs - mset (nlargest n col xs) = mset (drop n ?ys)"
    by (simp add: nlargest_def)
  show "\<forall>r \<in># mset xs - mset (nlargest n col xs). col r \<le> rev (sort (map col xs)) ! (n - 1)"
  proof
    fix r assume "r \<in># mset xs - mset (nlargest n col xs)"
    then have "r \<in> set (drop n ?ys)" using rest by simp
    then obtain j where "j < length xs - n" "r = ?ys ! (n + j)"
      by (auto simp: in_set_conv_nth)
    then have j: "n + j < length xs" "r = ?ys ! (n + j)" by simp_all
    then show "col r \<le> rev (sort (map col xs)) ! (n - 1)"
      using mono [of "n - 1" "n + j"] t by simp
  qed
qed

lemma nlargest_sub_mset: "mset (nlargest n col xs) \<subseteq># mset xs"
proof -
  have "mset xs = mset (take n (sort_key (\<lambda>r. - col r) xs)) + mset (drop n (sort_key (\<lambda>r. - col r) xs))"
    by (simp flip: mset_append)
  then show ?thesis by (simp add: nlargest_def)
qed

lemma nlargest_ties_first:
  fixes col :: "'a \<Rightarrow> real"
  shows "prefix (filter (\<lambda>r. col r = a) (nlargest n col xs)) (filter (\<lambda>r. col r = a) xs)"
proof -
  have "prefix (filter (\<lambda>r. - col r = - a) (take n (sort_key (\<lambda>r. - col r) xs)))
          (filter (\<lambda>r. - col r = - a) (sort_key (\<lambda>r. - col r) xs))"
    by (intro filter_mono_prefix take_is_prefix)
  then have "prefix (filter (\<lambda>r. - col r = - a) (take n (sort_key (\<lambda>r. - col r) xs)))
          (filter (\<lambda>r. - col r = - a) xs)"
    by (simp only: sort_key_stable)
  then show ?thesis by (simp add: nlargest_def)
qed

text \<open>Three rows tie for the largest value; the two that come first are kept.\<close>

lemma nlargest_example:
  "nlargest 2 snd [(''a'', 1), (''b'', 3), (''c'', 3), (''d'', 3)] = [(''b'', 3), (''c'', 3)]"
  by (simp add: nlargest_def)

text \<open>
  Claim C2. From a subset of more than 10000 features the encoder keeps exactly 10000
  and warns with the original count. The features kept are features of the subset (with
  their multiplicity); each has at least the 10000th-largest area of the subset, and each
  feature left out has at most that area. Among the features of one and the same area the
  ones kept are the first ones in the original order.
\<close>

theorem sampling_cap:
  "length fs > 10000 \<Longrightarrow>
   length (layer_data (create_choropleth_map centroid fs)) = 10000 \<and>
   warning (create_choropleth_map centroid fs) = Some (length fs) \<and>
   mset (map row (layer_data (create_choropleth_map centroid fs))) \<subseteq># mset fs \<and>
   (\<forall>e \<in> set (layer_data (create_choropleth_map centroid fs)).
      rev (sort (map area_km2 fs)) ! 9999 \<le> area_km2 (row e)) \<and>
   (\<forall>f \<in># mset fs - mset (map row (layer_data (create_choropleth_map centroid fs))).
      area_km2 f \<le> rev (sort (map area_km2 fs)) ! 9999) \<and>
   (\<forall>a. prefix (filter (\<lambda>f. area_km2 f = a) (map row (layer_data (create_choropleth_map centroid fs))))
               (filter (\<lambda>f. area_km2 f = a) fs))"
proof -
  assume big: "length fs > 10000"
  let ?d = "layer_data (create_choropleth_map centroid fs)"
  have rows: "map row ?d = nlargest 10000 area_km2 fs"
    using big by (simp add: layer_data_encode map_row_encode_rows gdf_sample_def)
  have n: "(0::nat) < 10000" "10000 \<le> length fs" using big by simp_all
  have "length ?d = 10000" using big by (simp add: layer_data_encode length_gdf_sample)
  moreover have "warning (create_choropleth_map centroid fs) = Some (length fs)"
    using big by (simp add: create_choropleth_map_def sample_warning_def Let_def)
  moreover have "mset (map row ?d) \<subseteq># mset fs"
    unfolding rows by (rule nlargest_sub_mset)
  moreover have "\<forall>e \<in> set ?d. rev (sort (map area_km2 fs)) ! 9999 \<le> area_km2 (row e)"
  proof
    fix e assume "e \<in> set ?d"
    then have "row e \<in> set (map row ?d)" by simp
    then show "rev (sort (map area_km2 fs)) ! 9999 \<le> area_km2 (row e)"
      unfolding rows using nlargest_threshold(1) [OF n, of area_km2] by simp
  qed
  moreover have "\<forall>f \<in># mset fs - mset (map row ?d). area_km2 f \<le> rev (sort (map area_km2 fs)) ! 9999"
    unfolding rows using nlargest_threshold(2) [OF n, of area_km2] by simp
  moreover have "\<forall>a. prefix (filter (\<lambda>f. area_km2 f = a) (map row ?d)) (filter (\<lambda>f. area_km2 f = a) fs)"
    unfolding rows by (simp add: nlargest_ties_first)
  ultimately show ?thesis by blast
qed

text \<open>A subset of 10001 features, of the areas 1 to 10001.\<close>

theorem sampling_cap_witness:
  "length (layer_data (create_choropleth_map example_centroid
     (map (\<lambda>i. example_feature (1 + real i)) [0..<10001]))) = 10000 \<and>
   warning (create_choropleth_map example_centroid
     (map (\<lambda>i. example_feature (1 + real i)) [0..<10001])) = Some 10001"
  using sampling_cap [of "map (\<lambda>i. example_feature (1 + real i)) [0..<10001]" example_centroid]
  by simp

section \<open>Facts about the aggregates and the page\<close>










subsection \<open>The yearly series\<close>



subsection \<open>The series by year and state\<close>


text \<open>
  Two states with the same total in one year: Amazonas comes before Para, both after the
  larger total of Mato Grosso.
\<close>

lemma evolucao_por_estado_example:
  "evolucao_por_estado
     [\<lparr>ano = 2020, area_km2 = 2, uf = Some ''PA'', municipio = ''226/068'', geometry = ()\<rparr>,
      \<lparr>ano = 2020, area_km2 = 5, uf = Some ''AM'', municipio = ''231/066'', geometry = ()\<rparr>,
      \<lparr>ano = 2020, area_km2 = 7, uf = Some ''MT'', municipio = ''227/069'', geometry = ()\<rparr>,
      \<lparr>ano = 2019, area_km2 = 1, uf = Some ''PA'', municipio = ''226/068'', geometry = ()\<rparr>,
      \<lparr>ano = 2020, area_km2 = 3, uf = Some ''PA'', municipio = ''226/068'', geometry = ()\<rparr>]
   = [(2019, ''PA'', 1), (2020, ''MT'', 7), (2020, ''AM'', 5), (2020, ''PA'', 5)]"
  by (simp add: evolucao_por_estado_def groupby_sum_def)

subsection \<open>The empty subset and the page\<close>




section \<open>Facts about the loader\<close>



subsection \<open>Missing required columns\<close>




subsection \<open>Loaded features\<close>



text \<open>A loaded collection always has its year and area columns.\<close>

lemma load_data_columns:
  assumes "load_data to_numeric to_crs raw = Inr g"
  shows "''ano'' \<in> set (gcolumns g)" and "''area_km2'' \<in> set (gcolumns g)"
  using assms by (auto simp: load_data_def Let_def split: if_splits list.splits)


end
